theory Spec2Isabelle
  imports Complex_Main
begin

section \<open>Numbers\<close>

text \<open>
  The adjustment engine (\<^verbatim>\<open>gsadjust/data/adjustment.py\<close>) computes with Python numbers and
  numpy \<^verbatim>\<open>float64\<close> arrays. A finite float is modelled by the real number it stands for:
  rounding, overflow and the sign of zero are abstracted away. What is kept is the difference
  that decides how the code behaves at the edges:
  \<^item> a Python \<^verbatim>\<open>int\<close> or \<^verbatim>\<open>float\<close> division by zero raises \<^verbatim>\<open>ZeroDivisionError\<close>;
  \<^item> a numpy division by zero, square root or logarithm outside the domain raises nothing
    and yields \<^verbatim>\<open>inf\<close>, \<^verbatim>\<open>-inf\<close> or \<^verbatim>\<open>nan\<close>.
\<close>

datatype error =
  LinAlgError | ValueError | ZeroDivisionError | AttributeError | TypeError | IndexError

datatype npfloat = Fin real | PInf | NInf | NaN

fun np_neg :: "npfloat \<Rightarrow> npfloat" where
  "np_neg (Fin x) = Fin (- x)"
| "np_neg PInf = NInf"
| "np_neg NInf = PInf"
| "np_neg NaN = NaN"

fun np_add :: "npfloat \<Rightarrow> npfloat \<Rightarrow> npfloat" where
  "np_add NaN _ = NaN"
| "np_add _ NaN = NaN"
| "np_add (Fin x) (Fin y) = Fin (x + y)"
| "np_add PInf NInf = NaN"
| "np_add NInf PInf = NaN"
| "np_add PInf _ = PInf"
| "np_add _ PInf = PInf"
| "np_add NInf _ = NInf"
| "np_add _ NInf = NInf"

definition np_sub :: "npfloat \<Rightarrow> npfloat \<Rightarrow> npfloat" where
  "np_sub x y = np_add x (np_neg y)"

fun np_mul :: "npfloat \<Rightarrow> npfloat \<Rightarrow> npfloat" where
  "np_mul NaN _ = NaN"
| "np_mul _ NaN = NaN"
| "np_mul (Fin x) (Fin y) = Fin (x * y)"
| "np_mul (Fin x) PInf = (if 0 < x then PInf else if x < 0 then NInf else NaN)"
| "np_mul (Fin x) NInf = (if 0 < x then NInf else if x < 0 then PInf else NaN)"
| "np_mul PInf (Fin y) = (if 0 < y then PInf else if y < 0 then NInf else NaN)"
| "np_mul NInf (Fin y) = (if 0 < y then NInf else if y < 0 then PInf else NaN)"
| "np_mul PInf PInf = PInf"
| "np_mul PInf NInf = NInf"
| "np_mul NInf PInf = NInf"
| "np_mul NInf NInf = PInf"

text \<open>Division by a zero that came from an integer or from a non-negative float is
  division by \<^verbatim>\<open>+0.0\<close>.\<close>

fun np_div :: "npfloat \<Rightarrow> npfloat \<Rightarrow> npfloat" where
  "np_div NaN _ = NaN"
| "np_div _ NaN = NaN"
| "np_div (Fin x) (Fin y) =
     (if y \<noteq> 0 then Fin (x / y) else if 0 < x then PInf else if x < 0 then NInf else NaN)"
| "np_div (Fin x) PInf = Fin 0"
| "np_div (Fin x) NInf = Fin 0"
| "np_div PInf (Fin y) = (if 0 \<le> y then PInf else NInf)"
| "np_div NInf (Fin y) = (if 0 \<le> y then NInf else PInf)"
| "np_div PInf PInf = NaN"
| "np_div PInf NInf = NaN"
| "np_div NInf PInf = NaN"
| "np_div NInf NInf = NaN"

fun np_sqrt :: "npfloat \<Rightarrow> npfloat" where
  "np_sqrt (Fin x) = (if 0 \<le> x then Fin (sqrt x) else NaN)"
| "np_sqrt PInf = PInf"
| "np_sqrt NInf = NaN"
| "np_sqrt NaN = NaN"

fun np_log :: "npfloat \<Rightarrow> npfloat" where
  "np_log (Fin x) = (if 0 < x then Fin (ln x) else if x = 0 then NInf else NaN)"
| "np_log PInf = PInf"
| "np_log NInf = NaN"
| "np_log NaN = NaN"

text \<open>\<^verbatim>\<open>x ** n\<close> for a literal exponent \<open>n\<close>.\<close>

primrec np_pow :: "npfloat \<Rightarrow> nat \<Rightarrow> npfloat" where
  "np_pow x 0 = Fin 1"
| "np_pow x (Suc n) = np_mul x (np_pow x n)"

fun np_less :: "npfloat \<Rightarrow> npfloat \<Rightarrow> bool" where
  "np_less NaN _ = False"
| "np_less _ NaN = False"
| "np_less (Fin x) (Fin y) = (x < y)"
| "np_less NInf NInf = False"
| "np_less NInf _ = True"
| "np_less _ NInf = False"
| "np_less PInf _ = False"
| "np_less _ PInf = True"

text \<open>A number held in an attribute: a Python \<^verbatim>\<open>int\<close> or \<^verbatim>\<open>float\<close> (finite), or a numpy
  \<^verbatim>\<open>float64\<close>.\<close>

datatype scalar = Py real | Np npfloat

fun to_np :: "scalar \<Rightarrow> npfloat" where
  "to_np (Py x) = Fin x"
| "to_np (Np v) = v"

definition scalar_less :: "scalar \<Rightarrow> scalar \<Rightarrow> bool" where
  "scalar_less x y = np_less (to_np x) (to_np y)"

text \<open>\<^verbatim>\<open>x / d\<close> for an integer \<open>d\<close>: Python's own division raises on zero, numpy's does not.\<close>

fun scalar_div :: "scalar \<Rightarrow> int \<Rightarrow> error + scalar" where
  "scalar_div (Py x) d = (if d = 0 then Inl ZeroDivisionError else Inr (Py (x / real_of_int d)))"
| "scalar_div (Np v) d = Inr (Np (np_div v (Fin (real_of_int d))))"

section \<open>Arrays\<close>

text \<open>A two-dimensional \<^verbatim>\<open>ndarray\<close>: its shape and its entries. Only the entries inside the
  shape mean anything. The vectors of the adjustment (\<^verbatim>\<open>Obs\<close>, \<^verbatim>\<open>X\<close>, \<^verbatim>\<open>r\<close>) are arrays of one
  column and \<^verbatim>\<open>VtPV\<close> is an array of one row and one column, as the method's own indexing
  (\<^verbatim>\<open>self.X[i][0]\<close>, \<^verbatim>\<open>self.VtPV[0][0]\<close>) takes them to be.\<close>

record 'a ndarray =
  nrows :: nat
  ncols :: nat
  ent :: "nat \<Rightarrow> nat \<Rightarrow> 'a"

definition nd_eq :: "'a ndarray \<Rightarrow> 'a ndarray \<Rightarrow> bool" where
  "nd_eq M K \<longleftrightarrow> nrows M = nrows K \<and> ncols M = ncols K \<and>
     (\<forall>i<nrows M. \<forall>j<ncols M. ent M i j = ent K i j)"

definition of_rows :: "'a list list \<Rightarrow> 'a ndarray" where
  "of_rows rows = \<lparr>nrows = length rows,
                   ncols = (case rows of [] \<Rightarrow> 0 | row # _ \<Rightarrow> length row),
                   ent = (\<lambda>i j. rows ! i ! j)\<rparr>"

definition to_rows :: "'a ndarray \<Rightarrow> 'a list list" where
  "to_rows M = map (\<lambda>i. map (\<lambda>j. ent M i j) [0..<ncols M]) [0..<nrows M]"

definition np_transpose :: "'a ndarray \<Rightarrow> 'a ndarray" where
  "np_transpose M = \<lparr>nrows = ncols M, ncols = nrows M, ent = (\<lambda>i j. ent M j i)\<rparr>"

definition mmul :: "real ndarray \<Rightarrow> real ndarray \<Rightarrow> real ndarray" where
  "mmul M K = \<lparr>nrows = nrows M, ncols = ncols K,
               ent = (\<lambda>i j. \<Sum>k<ncols M. ent M i k * ent K k j)\<rparr>"

text \<open>\<^verbatim>\<open>M.dot(K)\<close> raises \<^verbatim>\<open>ValueError\<close> when the shapes are not aligned.\<close>

definition dot :: "real ndarray \<Rightarrow> real ndarray \<Rightarrow> error + real ndarray" where
  "dot M K = (if ncols M = nrows K then Inr (mmul M K) else Inl ValueError)"

text \<open>Elementwise operators broadcast: along each axis the two lengths are equal or one of
  them is 1, and an axis of length 1 is read at index 0.\<close>

definition broadcast_dim :: "nat \<Rightarrow> nat \<Rightarrow> nat option" where
  "broadcast_dim a b =
     (if a = b then Some a else if a = 1 then Some b else if b = 1 then Some a else None)"

definition bidx :: "nat \<Rightarrow> nat \<Rightarrow> nat" where
  "bidx d i = (if d = 1 then 0 else i)"

definition np_broadcast ::
  "('a \<Rightarrow> 'b \<Rightarrow> 'c) \<Rightarrow> 'a ndarray \<Rightarrow> 'b ndarray \<Rightarrow> error + 'c ndarray" where
  "np_broadcast f M K =
     (case broadcast_dim (nrows M) (nrows K) of
        None \<Rightarrow> Inl ValueError
      | Some m \<Rightarrow>
          (case broadcast_dim (ncols M) (ncols K) of
             None \<Rightarrow> Inl ValueError
           | Some n \<Rightarrow>
               Inr \<lparr>nrows = m, ncols = n,
                    ent = (\<lambda>i j. f (ent M (bidx (nrows M) i) (bidx (ncols M) j))
                                    (ent K (bidx (nrows K) i) (bidx (ncols K) j)))\<rparr>))"

definition np_subtract :: "real ndarray \<Rightarrow> real ndarray \<Rightarrow> error + real ndarray" where
  "np_subtract = np_broadcast (\<lambda>x y. x - y)"

definition np_multiply :: "real ndarray \<Rightarrow> npfloat ndarray \<Rightarrow> error + npfloat ndarray" where
  "np_multiply = np_broadcast (\<lambda>x y. np_mul (Fin x) y)"

text \<open>\<^verbatim>\<open>M / d\<close> for a Python integer \<open>d\<close>, and \<^verbatim>\<open>np.sqrt(M)\<close>: elementwise, never raising.\<close>

definition np_true_divide :: "real ndarray \<Rightarrow> int \<Rightarrow> npfloat ndarray" where
  "np_true_divide M d =
     \<lparr>nrows = nrows M, ncols = ncols M,
      ent = (\<lambda>i j. np_div (Fin (ent M i j)) (Fin (real_of_int d)))\<rparr>"

definition np_sqrt_nd :: "npfloat ndarray \<Rightarrow> npfloat ndarray" where
  "np_sqrt_nd M = \<lparr>nrows = nrows M, ncols = ncols M, ent = (\<lambda>i j. np_sqrt (ent M i j))\<rparr>"

text \<open>\<^verbatim>\<open>np.diagonal(M)\<close> is one-dimensional.\<close>

definition np_diagonal :: "'a ndarray \<Rightarrow> 'a list" where
  "np_diagonal M = map (\<lambda>i. ent M i i) [0..<min (nrows M) (ncols M)]"

text \<open>Python indexing: a negative index counts from the end, an index outside raises.\<close>

definition py_index :: "nat \<Rightarrow> int \<Rightarrow> error + nat" where
  "py_index n i =
     (let j = (if i < 0 then int n + i else i)
      in if 0 \<le> j \<and> j < int n then Inr (nat j) else Inl IndexError)"

definition getitem2 :: "'a ndarray \<Rightarrow> int \<Rightarrow> int \<Rightarrow> error + 'a" where
  "getitem2 M i j =
     (case py_index (nrows M) i of
        Inl e \<Rightarrow> Inl e
      | Inr i' \<Rightarrow>
          (case py_index (ncols M) j of
             Inl e \<Rightarrow> Inl e
           | Inr j' \<Rightarrow> Inr (ent M i' j')))"

section \<open>The adjustment objects\<close>

text \<open>\<^verbatim>\<open>AdjustmentResults.__init__\<close> sets every attribute below but the last two.
  \<^verbatim>\<open>dof\<close> is set from outside (by \<^verbatim>\<open>Adjustment.lsq_statistics\<close>); \<^verbatim>\<open>meter_cal_dict\<close> is read by
  \<^verbatim>\<open>Adjustment.results_string\<close> and set nowhere. \<open>None\<close> stands for an attribute the object
  does not have.\<close>

record AdjustmentResults =
  n_deltas :: int
  n_deltas_notused :: int
  n_datums :: int
  n_datums_notused :: int
  n_unknowns :: int
  max_dg_residual :: scalar
  min_dg_residual :: scalar
  max_datum_residual :: scalar
  min_datum_residual :: scalar
  avg_stdev :: scalar
  chi2 :: scalar
  chi2c :: scalar
  cal_dic :: "(string \<times> scalar \<times> scalar) list"
  netadj_drift_dic :: "(string \<times> scalar list) list"
  text_lines :: "string list"
  dof :: "int option"
  meter_cal_dict :: "(string \<times> scalar) list option"

definition AdjustmentResults_init :: AdjustmentResults where
  "AdjustmentResults_init =
     \<lparr>n_deltas = 0, n_deltas_notused = 0, n_datums = 0, n_datums_notused = 0, n_unknowns = 0,
      max_dg_residual = Py 0, min_dg_residual = Py 0,
      max_datum_residual = Py 0, min_datum_residual = Py 0,
      avg_stdev = Py 0, chi2 = Py 0, chi2c = Py 0,
      cal_dic = [], netadj_drift_dic = [], text_lines = [],
      dof = None, meter_cal_dict = None\<rparr>"

text \<open>In \<^verbatim>\<open>AdjustmentOptions\<close>, \<^verbatim>\<open>meter_cal_dict\<close> is \<^verbatim>\<open>None\<close> or a dictionary.\<close>

record AdjustmentOptions =
  use_sigma_prefactor :: bool
  sigma_prefactor :: real
  use_sigma_postfactor :: bool
  sigma_postfactor :: real
  use_sigma_add :: bool
  sigma_add :: real
  use_sigma_min :: bool
  sigma_min :: real
  alpha :: real
  cal_coeff :: bool
  adj_type :: string
  specify_cal_coeff :: bool
  meter_cal_dict :: "(string \<times> scalar) list option"

definition AdjustmentOptions_init :: AdjustmentOptions where
  "AdjustmentOptions_init =
     \<lparr>use_sigma_prefactor = False, sigma_prefactor = 1.0,
      use_sigma_postfactor = False, sigma_postfactor = 1.0,
      use_sigma_add = False, sigma_add = 0.0,
      use_sigma_min = False, sigma_min = 3.0,
      alpha = 0.05, cal_coeff = False, adj_type = ''gravnet'',
      specify_cal_coeff = False, meter_cal_dict = None\<rparr>"

text \<open>The delta and datum objects are defined outside this module; the adjustment only
  holds them.\<close>

typedecl Delta
typedecl Datum

record Adjustment =
  A :: "real ndarray"
  P :: "real ndarray"
  Obs :: "real ndarray"
  S :: "real ndarray"
  X :: "real ndarray"
  r :: "real ndarray"
  var :: "npfloat list"
  VtPV :: "real ndarray"
  SDaposteriori :: "npfloat ndarray"
  dof :: int
  n_meters :: int
  meter_dic :: "(string \<times> int) list"
  deltas :: "Delta list"
  datums :: "Datum list"
  g_dic :: "(string \<times> real) list"
  sd_dic :: "(string \<times> real) list"
  netadj_loop_keys :: "(string \<times> int \<times> int) list"
  sta_dic_ls :: "(string \<times> int list) list"
  adjustmentoptions :: AdjustmentOptions
  adjustmentresults :: AdjustmentResults

section \<open>The least-squares solver\<close>

text \<open>
  \<^verbatim>\<open>Adjustment.python_lsq_inversion\<close>. The method assigns to the attributes of \<^verbatim>\<open>self\<close> one
  after the other, and any of its array operations may raise: the model returns the exception
  (if any) together with the object as the method leaves it.

  \<^verbatim>\<open>np.linalg.inv\<close> belongs to numpy, not to this repository: it is the parameter
  \<open>linalg_inv\<close>.
\<close>

definition python_lsq_inversion ::
  "(real ndarray \<Rightarrow> error + real ndarray) \<Rightarrow> Adjustment \<Rightarrow> error option \<times> Adjustment" where
  "python_lsq_inversion linalg_inv self =
     (let At = np_transpose (A self) in
      case dot At (P self) of Inl e \<Rightarrow> (Some e, self) | Inr AtP \<Rightarrow>
     (case dot AtP (A self) of Inl e \<Rightarrow> (Some e, self) | Inr N \<Rightarrow>
     (case linalg_inv N of Inl e \<Rightarrow> (Some e, self) | Inr Ninv \<Rightarrow>
     (case dot Ninv At of Inl e \<Rightarrow> (Some e, self) | Inr NinvAt \<Rightarrow>
     (case dot NinvAt (P self) of Inl e \<Rightarrow> (Some e, self) | Inr NinvAtP \<Rightarrow>
     (case dot NinvAtP (Obs self) of Inl e \<Rightarrow> (Some e, self) | Inr x \<Rightarrow>
     (let self1 = self\<lparr>X := x\<rparr> in
      case dot (A self1) (X self1) of Inl e \<Rightarrow> (Some e, self1) | Inr AX \<Rightarrow>
     (case np_subtract AX (Obs self1) of Inl e \<Rightarrow> (Some e, self1) | Inr res \<Rightarrow>
     (let self2 = self1\<lparr>r := res\<rparr>;
          rt = np_transpose (r self2) in
      case dot rt (P self2) of Inl e \<Rightarrow> (Some e, self2) | Inr rtP \<Rightarrow>
     (case dot rtP (r self2) of Inl e \<Rightarrow> (Some e, self2) | Inr v \<Rightarrow>
     (let self3 = self2\<lparr>VtPV := v\<rparr>;
          var_post_norm = np_true_divide (VtPV self3) (dof self3);
          self4 = self3\<lparr>SDaposteriori := np_sqrt_nd var_post_norm\<rparr> in
      case linalg_inv N of Inl e \<Rightarrow> (Some e, self4) | Inr Ninv' \<Rightarrow>
     (case np_multiply Ninv' var_post_norm of Inl e \<Rightarrow> (Some e, self4) | Inr cov_post \<Rightarrow>
      (None, self4\<lparr>var := np_diagonal cov_post\<rparr>)))))))))))))"

text \<open>The normal-equations matrix \<open>N = A\<^sup>T P A\<close> of the method, and what it means for a
  matrix to be its inverse.\<close>

definition normal_matrix :: "Adjustment \<Rightarrow> real ndarray" where
  "normal_matrix self = mmul (mmul (np_transpose (A self)) (P self)) (A self)"

definition is_inverse :: "real ndarray \<Rightarrow> real ndarray \<Rightarrow> bool" where
  "is_inverse M K \<longleftrightarrow>
     nrows M = ncols M \<and> nrows K = nrows M \<and> ncols K = nrows M \<and>
     (\<forall>i<nrows M. \<forall>j<nrows M. ent (mmul M K) i j = (if i = j then 1 else 0)) \<and>
     (\<forall>i<nrows M. \<forall>j<nrows M. ent (mmul K M) i j = (if i = j then 1 else 0))"

definition invertible :: "real ndarray \<Rightarrow> bool" where
  "invertible M \<longleftrightarrow> (\<exists>K. is_inverse M K)"

text \<open>What numpy documents of \<^verbatim>\<open>np.linalg.inv\<close>, at one matrix: it returns the inverse, or
  raises \<^verbatim>\<open>LinAlgError\<close> when there is none. The properties below assume it only of an
  invertible matrix, where it says that the inverse is returned.\<close>

definition numpy_inv_at :: "(real ndarray \<Rightarrow> error + real ndarray) \<Rightarrow> real ndarray \<Rightarrow> bool" where
  "numpy_inv_at linalg_inv M =
     (case linalg_inv M of
        Inr K \<Rightarrow> is_inverse M K
      | Inl e \<Rightarrow> e = LinAlgError \<and> \<not> invertible M)"

section \<open>The statistics\<close>

text \<open>
  \<^verbatim>\<open>Adjustment.lsq_statistics\<close>. \<^verbatim>\<open>alpha\<close> and \<^verbatim>\<open>float(self.dof)\<close> are Python floats, so
  \<^verbatim>\<open>1 / alpha\<close> and \<^verbatim>\<open>2 / (9 * dof)\<close> raise on a zero divisor; \<^verbatim>\<open>t\<close> and what is computed from it
  are numpy values. \<^verbatim>\<open>chi2\<close> and \<^verbatim>\<open>dof\<close> are stored before anything can divide.
\<close>

definition lsq_statistics :: "Adjustment \<Rightarrow> error option \<times> Adjustment" where
  "lsq_statistics self =
     (let alpha' = alpha (adjustmentoptions self) in
      case getitem2 (VtPV self) 0 0 of Inl e \<Rightarrow> (Some e, self) | Inr v \<Rightarrow>
     (let self1 = self\<lparr>adjustmentresults := (adjustmentresults self)\<lparr>chi2 := Np (Fin v)\<rparr>\<rparr>;
          self2 = self1\<lparr>adjustmentresults :=
                    (adjustmentresults self1)\<lparr>AdjustmentResults.dof := Some (dof self1)\<rparr>\<rparr>
      in if alpha' = 0 then (Some ZeroDivisionError, self2) else
     (let t = np_sqrt (np_mul (Fin 2) (np_log (Fin (1 / alpha'))));
          chi_1_alpha =
            np_sub t
              (np_div
                (np_add (np_add (Fin 2.515517) (np_mul (Fin 0.802853) t))
                        (np_mul (Fin 0.010328) (np_pow t 2)))
                (np_add (np_add (np_add (Fin 1) (np_mul (Fin 1.432788) t))
                                (np_mul (Fin 0.189269) (np_pow t 2)))
                        (np_mul (Fin 0.001308) (np_pow t 3))));
          dof' = real_of_int (dof self2)
      in if 9 * dof' = 0 then (Some ZeroDivisionError, self2) else
         (None, self2\<lparr>adjustmentresults := (adjustmentresults self2)\<lparr>chi2c :=
            Np (np_mul (Fin dof')
                 (np_pow (np_sub (np_add (np_mul chi_1_alpha (np_sqrt (Fin (2 / (9 * dof')))))
                                         (Fin 1))
                                 (Fin (2.0 / (9 * dof'))))
                         3))\<rparr>\<rparr>))))"

text \<open>The critical value as the specification writes it, over the reals.\<close>

definition t_spec :: "real \<Rightarrow> real" where
  "t_spec a = sqrt (2 * ln (1 / a))"

definition z_spec :: "real \<Rightarrow> real" where
  "z_spec t = t - (2.515517 + 0.802853 * t + 0.010328 * t\<^sup>2)
                  / (1 + 1.432788 * t + 0.189269 * t\<^sup>2 + 0.001308 * t ^ 3)"

definition chi2c_spec :: "real \<Rightarrow> real \<Rightarrow> real" where
  "chi2c_spec a d = d * (z_spec (t_spec a) * sqrt (2 / (9 * d)) + 1 - 2 / (9 * d)) ^ 3"

text \<open>The numerator and the denominator of the rational term of \<open>z_spec\<close>.\<close>

definition z_num :: "real \<Rightarrow> real" where
  "z_num t = 2.515517 + 0.802853 * t + 0.010328 * t\<^sup>2"

definition z_den :: "real \<Rightarrow> real" where
  "z_den t = 1 + 1.432788 * t + 0.189269 * t\<^sup>2 + 0.001308 * t ^ 3"


section \<open>The report\<close>

text \<open>Python's number formatting (\<^verbatim>\<open>{:d}\<close>, \<^verbatim>\<open>{:6.2f}\<close>, ...) is the language's, not the
  repository's: the two conversions are parameters. \<open>format_f fmt spec x\<close> stands for
  \<^verbatim>\<open>format(x, spec)\<close>.\<close>

record pyformat =
  format_d :: "int \<Rightarrow> string"
  format_f :: "string \<Rightarrow> scalar \<Rightarrow> string"

text \<open>\<^verbatim>\<open>AdjustmentResults.get_report\<close>. Reading \<^verbatim>\<open>self.dof\<close> raises \<^verbatim>\<open>AttributeError\<close> on an
  object that was never given one.\<close>

definition get_report :: "pyformat \<Rightarrow> AdjustmentResults \<Rightarrow> error + string list" where
  "get_report fmt self =
     (let chi_result = (if scalar_less (chi2 self) (chi2c self) then ''accepted'' else ''rejected'')
      in case AdjustmentResults.dof self of None \<Rightarrow> Inl AttributeError | Some d \<Rightarrow>
     (case scalar_div (chi2 self) d of Inl e \<Rightarrow> Inl e | Inr sd \<Rightarrow>
        Inr [''Number of unknowns:                  '' @ format_d fmt (n_unknowns self),
             ''Number of relative observations:     '' @ format_d fmt (n_deltas self),
             ''Number of absolute observations:     '' @ format_d fmt (n_datums self),
             ''Degrees of freedom (nobs-nunknowns): '' @ format_d fmt d,
             ''SD a posteriori:                     '' @ format_f fmt ''4f'' sd,
             ''chi square value:                  '' @ format_f fmt ''6.2f'' (chi2 self),
             ''critical chi square value:         '' @ format_f fmt ''6.2f'' (chi2c self),
             ''Chi-test '' @ chi_result,
             ''Average standard deviation:          '' @ format_f fmt ''.2f'' (avg_stdev self),
             ''Maximum delta residual:              '' @ format_f fmt ''.2f'' (max_dg_residual self),
             ''Maximum absolute datum residual:     '' @ format_f fmt ''.2f'' (max_datum_residual self),
             ''Minimum absolute datum residual:     '' @ format_f fmt ''.2f'' (min_datum_residual self)]))"

text \<open>\<^verbatim>\<open>Adjustment.results_string\<close> returns a list of lines, the empty string (from its
  \<^verbatim>\<open>except (AttributeError, TypeError)\<close>) or, when neither branch is taken, \<^verbatim>\<open>None\<close>.\<close>

datatype results_value = Lines "string list" | EmptyStr | PyNone

text \<open>The inner loop \<^verbatim>\<open>for i in range(loop[1][1])\<close>: one line per drift coefficient, read
  from \<^verbatim>\<open>self.X\<close>.\<close>

fun drift_coefficient_lines ::
  "pyformat \<Rightarrow> Adjustment \<Rightarrow> int \<Rightarrow> int list \<Rightarrow> error + string list" where
  "drift_coefficient_lines fmt self start [] = Inr []"
| "drift_coefficient_lines fmt self start (i # rest) =
     (case getitem2 (X self) (int (length (sta_dic_ls self)) + n_meters self + start + i) 0 of
        Inl e \<Rightarrow> Inl e
      | Inr degree \<Rightarrow>
          (case drift_coefficient_lines fmt self start rest of
             Inl e \<Rightarrow> Inl e
           | Inr later \<Rightarrow>
               Inr ((if degree = 1
                     then ''Drift coefficient, degree '' @ format_d fmt (i + 1) @ '': ''
                            @ format_f fmt ''.3f'' (Np (Fin degree))
                     else ''Drift coefficient, degree '' @ format_d fmt (i + 1) @ '': ''
                            @ format_f fmt ''.3f'' (Np (Fin degree))
                            @ '' ('' @ [CHR 0xC2, CHR 0xB5] @ ''Gal/day)'') # later)))"

text \<open>The outer loop \<^verbatim>\<open>for loop in self.netadj_loop_keys.items()\<close>.\<close>

fun drift_lines ::
  "pyformat \<Rightarrow> Adjustment \<Rightarrow> (string \<times> int \<times> int) list \<Rightarrow> error + string list" where
  "drift_lines fmt self [] = Inr []"
| "drift_lines fmt self (loop # rest) =
     (case drift_coefficient_lines fmt self (fst (snd loop))
             (map int [0..<nat (snd (snd loop))]) of
        Inl e \<Rightarrow> Inl e
      | Inr coefficients \<Rightarrow>
          (case drift_lines fmt self rest of
             Inl e \<Rightarrow> Inl e
           | Inr later \<Rightarrow> Inr ((''Loop '' @ fst loop @ '': '') # coefficients @ later)))"

definition calibration_lines :: "pyformat \<Rightarrow> Adjustment \<Rightarrow> error + string list" where
  "calibration_lines fmt self =
     (if cal_coeff (adjustmentoptions self) then
        Inr (map (\<lambda>(k, v). ''Calibration coefficient for meter '' @ k @ '': ''
                    @ format_f fmt ''.6f'' (fst v) @ '' +/- '' @ format_f fmt ''.6f'' (snd v))
               (cal_dic (adjustmentresults self)))
      else if specify_cal_coeff (adjustmentoptions self) then
        (case AdjustmentResults.meter_cal_dict (adjustmentresults self) of
           None \<Rightarrow> Inl AttributeError
         | Some d \<Rightarrow>
             Inr (map (\<lambda>(k, v). ''Specified calibration coefficient for meter '' @ k @ '': ''
                         @ format_f fmt ''.6f'' v) d))
      else Inr [])"

definition results_string_body :: "pyformat \<Rightarrow> Adjustment \<Rightarrow> error + results_value" where
  "results_string_body fmt self =
     (if text_lines (adjustmentresults self) \<noteq> [] then
        Inr (Lines (map (\<lambda>x. x @ [CHR 0x0A]) (text_lines (adjustmentresults self))))
      else if n_unknowns (adjustmentresults self) > 0 then
        (case get_report fmt (adjustmentresults self) of Inl e \<Rightarrow> Inl e | Inr text_out \<Rightarrow>
        (case calibration_lines fmt self of Inl e \<Rightarrow> Inl e | Inr cal \<Rightarrow>
        (if netadj_loop_keys self \<noteq> [] then
           (case drift_lines fmt self (netadj_loop_keys self) of Inl e \<Rightarrow> Inl e | Inr drift \<Rightarrow>
              Inr (Lines (text_out @ cal
                          @ ''Network adjustment drift coefficient(s):'' # drift)))
         else Inr (Lines (text_out @ cal)))))
      else Inr PyNone)"

definition results_string :: "pyformat \<Rightarrow> Adjustment \<Rightarrow> error + results_value" where
  "results_string fmt self =
     (case results_string_body fmt self of
        Inl AttributeError \<Rightarrow> Inr EmptyStr
      | Inl TypeError \<Rightarrow> Inr EmptyStr
      | other \<Rightarrow> other)"

section \<open>Worked examples\<close>

text \<open>An exact inverse for matrices of one or two rows: it stands in for \<^verbatim>\<open>np.linalg.inv\<close>
  where a computation is carried out on concrete numbers.\<close>

definition exact_inv :: "real ndarray \<Rightarrow> error + real ndarray" where
  "exact_inv M =
     (if nrows M = 1 \<and> ncols M = 1 then
        (if ent M 0 0 = 0 then Inl LinAlgError else Inr (of_rows [[1 / ent M 0 0]]))
      else if nrows M = 2 \<and> ncols M = 2 then
        (let d = ent M 0 0 * ent M 1 1 - ent M 0 1 * ent M 1 0
         in if d = 0 then Inl LinAlgError
            else Inr (of_rows [[ent M 1 1 / d, - ent M 0 1 / d],
                               [- ent M 1 0 / d, ent M 0 0 / d]]))
      else Inl LinAlgError)"

text \<open>\<^verbatim>\<open>Adjustment.__init__\<close>. The empty arrays \<^verbatim>\<open>np.array([])\<close> are read as arrays with no
  rows and no columns, and the number \<^verbatim>\<open>SDaposteriori = 0\<close> as an array of one entry; the
  examples below overwrite the array attributes that the methods read.\<close>

definition Adjustment_init :: Adjustment where
  "Adjustment_init =
     \<lparr>A = of_rows [], P = of_rows [], Obs = of_rows [], S = of_rows [], X = of_rows [],
      r = of_rows [], var = [], VtPV = of_rows [], SDaposteriori = of_rows [[Fin 0]],
      dof = 0, n_meters = 0, meter_dic = [], deltas = [], datums = [], g_dic = [], sd_dic = [],
      netadj_loop_keys = [], sta_dic_ls = [],
      adjustmentoptions = AdjustmentOptions_init, adjustmentresults = AdjustmentResults_init\<rparr>"

definition two_station_network :: Adjustment where
  "two_station_network =
     Adjustment_init\<lparr>A := of_rows [[1, -1], [1, 0]], P := of_rows [[1, 0], [0, 4]],
                      Obs := of_rows [[10], [980000]], dof := 0\<rparr>"

definition repeated_datum :: Adjustment where
  "repeated_datum =
     Adjustment_init\<lparr>A := of_rows [[1], [1]], P := of_rows [[1, 0], [0, 1]],
                      Obs := of_rows [[1], [3]], dof := 1\<rparr>"

definition floating_network :: Adjustment where
  "floating_network =
     Adjustment_init\<lparr>A := of_rows [[1, -1]], P := of_rows [[1]],
                      Obs := of_rows [[10]], dof := -1\<rparr>"




text \<open>A formatter that hides every number, for reports whose numbers do not matter.\<close>

definition mask_format :: pyformat where
  "mask_format = \<lparr>format_d = (\<lambda>n. ''#''), format_f = (\<lambda>spec x. ''#.#'')\<rparr>"

text \<open>An adjustment whose calibration coefficients were specified by the user: the options carry
  the table, the results are as \<^verbatim>\<open>AdjustmentResults.__init__\<close> and the solver's driver leave
  them.\<close>

definition specified_calibration_run :: Adjustment where
  "specified_calibration_run =
     Adjustment_init
       \<lparr>adjustmentoptions :=
          AdjustmentOptions_init\<lparr>specify_cal_coeff := True,
                                  AdjustmentOptions.meter_cal_dict := Some [(''B44'', Py 1.0002)]\<rparr>,
        adjustmentresults :=
          AdjustmentResults_init\<lparr>n_deltas := 3, n_datums := 1, n_unknowns := 3,
                                   chi2 := Np (Fin 2), chi2c := Np (Fin 3.84),
                                   AdjustmentResults.dof := Some 1\<rparr>\<rparr>"

text \<open>An adjustment ready for \<^verbatim>\<open>lsq_statistics\<close>, with a given significance level and
  number of degrees of freedom.\<close>

definition statistics_input :: "real \<Rightarrow> int \<Rightarrow> Adjustment" where
  "statistics_input a d =
     Adjustment_init\<lparr>VtPV := of_rows [[2]], dof := d,
                      adjustmentoptions := AdjustmentOptions_init\<lparr>alpha := a\<rparr>\<rparr>"

text \<open>An adjustment whose calibration coefficients were solved for.\<close>

definition solved_calibration_run :: Adjustment where
  "solved_calibration_run =
     Adjustment_init
       \<lparr>adjustmentoptions := AdjustmentOptions_init\<lparr>cal_coeff := True\<rparr>,
        adjustmentresults :=
          AdjustmentResults_init\<lparr>n_deltas := 3, n_datums := 1, n_unknowns := 3,
                                   chi2 := Np (Fin 2), chi2c := Np (Fin 3.84),
                                   cal_dic := [(''B44'', Py 1.0002, Py 0.0001)],
                                   AdjustmentResults.dof := Some 1\<rparr>\<rparr>"

section \<open>Properties of the arrays\<close>

lemma shape_mmul [simp]: "nrows (mmul M K) = nrows M" "ncols (mmul M K) = ncols K"
  by (simp_all add: mmul_def)

lemma shape_np_transpose [simp]:
  "nrows (np_transpose M) = ncols M" "ncols (np_transpose M) = nrows M"
  by (simp_all add: np_transpose_def)

lemma ent_np_transpose [simp]: "ent (np_transpose M) i j = ent M j i"
  by (simp add: np_transpose_def)

lemma shape_np_true_divide [simp]:
  "nrows (np_true_divide M d) = nrows M" "ncols (np_true_divide M d) = ncols M"
  by (simp_all add: np_true_divide_def)

lemma shape_np_sqrt_nd [simp]:
  "nrows (np_sqrt_nd M) = nrows M" "ncols (np_sqrt_nd M) = ncols M"
  by (simp_all add: np_sqrt_nd_def)

lemma dot_aligned: "ncols M = nrows K \<Longrightarrow> dot M K = Inr (mmul M K)"
  by (simp add: dot_def)

lemma broadcast_dim_same [simp]: "broadcast_dim n n = Some n"
  by (simp add: broadcast_dim_def)

lemma broadcast_dim_one [simp]: "broadcast_dim n (Suc 0) = Some n"
  by (simp add: broadcast_dim_def)

lemma bidx_in_range: "i < d \<Longrightarrow> bidx d i = i"
  by (auto simp: bidx_def)

lemma bidx_one [simp]: "bidx (Suc 0) i = 0"
  by (simp add: bidx_def)

lemma ent_np_true_divide [simp]:
  "ent (np_true_divide M d) i j = np_div (Fin (ent M i j)) (Fin (real_of_int d))"
  by (simp add: np_true_divide_def)

lemma np_subtract_column:
  assumes "nrows K = nrows M" "ncols M = 1" "ncols K = 1"
  shows "\<exists>res. np_subtract M K = Inr res \<and> nrows res = nrows M \<and> ncols res = 1 \<and>
           (\<forall>i<nrows M. ent res i 0 = ent M i 0 - ent K i 0)"
  using assms by (simp add: np_subtract_def np_broadcast_def bidx_in_range)

lemma np_multiply_by_1x1:
  assumes "nrows M = n" "ncols M = n" "nrows V = 1" "ncols V = 1"
  shows "\<exists>cov. np_multiply M V = Inr cov \<and>
           np_diagonal cov = map (\<lambda>i. np_mul (Fin (ent M i i)) (ent V 0 0)) [0..<n]"
  using assms
  by (simp add: np_multiply_def np_broadcast_def np_diagonal_def bidx_in_range
      del: np_mul.simps)

lemma python_lsq_inversion_returns:
  assumes shP: "nrows (P self) = nrows (A self)" "ncols (P self) = nrows (A self)"
    and shO: "nrows (Obs self) = nrows (A self)" "ncols (Obs self) = 1"
    and inv: "linalg_inv (normal_matrix self) = Inr Ninv"
    and shN: "nrows Ninv = ncols (A self)" "ncols Ninv = ncols (A self)"
  shows "\<exists>self'. python_lsq_inversion linalg_inv self = (None, self') \<and>
    X self' = mmul (mmul (mmul Ninv (np_transpose (A self))) (P self)) (Obs self) \<and>
    nrows (r self') = nrows (A self) \<and> ncols (r self') = 1 \<and>
    (\<forall>i<nrows (A self). ent (r self') i 0 = ent (mmul (A self) (X self')) i 0 - ent (Obs self) i 0) \<and>
    VtPV self' = mmul (mmul (np_transpose (r self')) (P self)) (r self') \<and>
    SDaposteriori self' = np_sqrt_nd (np_true_divide (VtPV self') (dof self)) \<and>
    var self' = map (\<lambda>i. np_mul (Fin (ent Ninv i i))
                      (np_div (Fin (ent (VtPV self') 0 0)) (Fin (real_of_int (dof self)))))
                   [0..<ncols (A self)]"
proof -
  let ?x = "mmul (mmul (mmul Ninv (np_transpose (A self))) (P self)) (Obs self)"
  obtain res where res: "np_subtract (mmul (A self) ?x) (Obs self) = Inr res"
    "nrows res = nrows (A self)" "ncols res = 1"
    "\<forall>i<nrows (A self). ent res i 0 = ent (mmul (A self) ?x) i 0 - ent (Obs self) i 0"
    using np_subtract_column [of "Obs self" "mmul (A self) ?x"] shO by auto
  let ?v = "mmul (mmul (np_transpose res) (P self)) res"
  obtain cov where cov: "np_multiply Ninv (np_true_divide ?v (dof self)) = Inr cov"
    "np_diagonal cov = map (\<lambda>i. np_mul (Fin (ent Ninv i i))
        (ent (np_true_divide ?v (dof self)) 0 0)) [0..<ncols (A self)]"
    using np_multiply_by_1x1 [of Ninv "ncols (A self)" "np_true_divide ?v (dof self)"] shN res
    by auto
  show ?thesis
    using shP shO inv shN res cov
    unfolding python_lsq_inversion_def Let_def normal_matrix_def
    by (simp add: dot_def del: np_mul.simps np_div.simps)
qed


lemmas example_simps =
  two_station_network_def repeated_datum_def floating_network_def Adjustment_init_def
  normal_matrix_def exact_inv_def of_rows_def mmul_def np_transpose_def

lemma two_station_inverse:
  "exact_inv (normal_matrix two_station_network) = Inr (of_rows [[1/4, 1/4], [1/4, 5/4]])"
  by (simp add: example_simps)

lemma two_station_is_inverse:
  "is_inverse (normal_matrix two_station_network) (of_rows [[1/4, 1/4], [1/4, 5/4]])"
  by (simp add: is_inverse_def example_simps All_less_Suc)




lemma invertible_returns:
  assumes "numpy_inv_at linalg_inv M" "invertible M"
  shows "\<exists>K. linalg_inv M = Inr K \<and> is_inverse M K"
  using assms by (auto simp: numpy_inv_at_def split: sum.splits)






lemma mmul_assoc: "mmul (mmul M K) L = mmul M (mmul K L)"
proof -
  have "(\<Sum>l<ncols K. (\<Sum>k<ncols M. ent M i k * ent K k l) * ent L l j)
      = (\<Sum>k<ncols M. ent M i k * (\<Sum>l<ncols K. ent K k l * ent L l j))" for i j
    by (simp add: sum_distrib_left sum_distrib_right mult.assoc) (rule sum.swap)
  then show ?thesis
    by (simp add: mmul_def)
qed

lemma mmul_identity_left:
  assumes "ncols E = n" "\<forall>i<n. \<forall>k<n. ent E i k = (if i = k then 1 else 0)" "i < n"
  shows "ent (mmul E B) i j = ent B i j"
proof -
  have "(\<Sum>k<n. ent E i k * ent B k j) = (\<Sum>k<n. if k = i then ent B k j else 0)"
    using assms(2,3) by (intro sum.cong) auto
  also have "\<dots> = ent B i j"
    using assms(3) by simp
  finally show ?thesis
    by (simp add: mmul_def assms(1))
qed

section \<open>Properties of the solver\<close>

text \<open>
  Claim C1. When \<open>A\<close> is \<open>n \<times> m\<close>, \<open>P\<close> is \<open>n \<times> n\<close> and \<open>Obs\<close> is \<open>n \<times> 1\<close>, and the normal-equations
  matrix \<open>N = A\<^sup>T P A\<close> is invertible (\<^verbatim>\<open>np.linalg.inv\<close> behaving on it as documented),
  \<^verbatim>\<open>python_lsq_inversion\<close> returns normally, with \<open>X = N\<^sup>-\<^sup>1 A\<^sup>T P Obs\<close> and \<open>r = A X - Obs\<close>.
\<close>

theorem python_lsq_inversion_X_r:
  assumes "nrows (P self) = nrows (A self)" "ncols (P self) = nrows (A self)"
    and "nrows (Obs self) = nrows (A self)" "ncols (Obs self) = 1"
    and "numpy_inv_at linalg_inv (normal_matrix self)"
    and "invertible (normal_matrix self)"
  shows "\<exists>Ninv self'.
    linalg_inv (normal_matrix self) = Inr Ninv \<and> is_inverse (normal_matrix self) Ninv \<and>
    python_lsq_inversion linalg_inv self = (None, self') \<and>
    X self' = mmul (mmul (mmul Ninv (np_transpose (A self))) (P self)) (Obs self) \<and>
    nrows (r self') = nrows (A self) \<and> ncols (r self') = 1 \<and>
    (\<forall>i<nrows (A self).
       ent (r self') i 0 = ent (mmul (A self) (X self')) i 0 - ent (Obs self) i 0)"
proof -
  obtain Ninv where Ninv: "linalg_inv (normal_matrix self) = Inr Ninv"
    "is_inverse (normal_matrix self) Ninv"
    using invertible_returns [OF assms(5,6)] by blast
  then have "nrows Ninv = ncols (A self)" "ncols Ninv = ncols (A self)"
    by (simp_all add: is_inverse_def normal_matrix_def)
  from python_lsq_inversion_returns [where linalg_inv = linalg_inv, OF assms(1-4) Ninv(1) this] Ninv
  show ?thesis by blast
qed

theorem python_lsq_inversion_X_r_witness:
  "nrows (P two_station_network) = nrows (A two_station_network) \<and>
   ncols (P two_station_network) = nrows (A two_station_network) \<and>
   nrows (Obs two_station_network) = nrows (A two_station_network) \<and>
   ncols (Obs two_station_network) = 1 \<and>
   numpy_inv_at exact_inv (normal_matrix two_station_network) \<and>
   invertible (normal_matrix two_station_network) \<and>
   (\<exists>Ninv self'.
      exact_inv (normal_matrix two_station_network) = Inr Ninv \<and>
      python_lsq_inversion exact_inv two_station_network = (None, self') \<and>
      X self' = mmul (mmul (mmul Ninv (np_transpose (A two_station_network)))
                  (P two_station_network)) (Obs two_station_network) \<and>
      to_rows (X self') = [[980000], [979990]] \<and>
      to_rows (r self') = [[0], [0]])"
proof -
  have sh: "nrows (P two_station_network) = nrows (A two_station_network)"
    "ncols (P two_station_network) = nrows (A two_station_network)"
    "nrows (Obs two_station_network) = nrows (A two_station_network)"
    "ncols (Obs two_station_network) = 1"
    by (simp_all add: example_simps)
  have ct: "numpy_inv_at exact_inv (normal_matrix two_station_network)"
    by (simp add: numpy_inv_at_def two_station_inverse two_station_is_inverse)
  have iv: "invertible (normal_matrix two_station_network)"
    using two_station_is_inverse by (auto simp: invertible_def)
  from python_lsq_inversion_X_r [OF sh ct iv]
  obtain Ninv self' where run: "exact_inv (normal_matrix two_station_network) = Inr Ninv"
    "python_lsq_inversion exact_inv two_station_network = (None, self')"
    "X self' = mmul (mmul (mmul Ninv (np_transpose (A two_station_network)))
                  (P two_station_network)) (Obs two_station_network)"
    "nrows (r self') = nrows (A two_station_network)" "ncols (r self') = 1"
    "\<forall>i<nrows (A two_station_network).
       ent (r self') i 0 = ent (mmul (A two_station_network) (X self')) i 0
         - ent (Obs two_station_network) i 0"
    by blast
  from run(1) have Ninv: "Ninv = of_rows [[1/4, 1/4], [1/4, 5/4]]"
    by (simp add: two_station_inverse)
  have x: "to_rows (X self') = [[980000], [979990]]"
    unfolding run(3) Ninv by (simp add: to_rows_def example_simps)
  have "ent (r self') 0 0 = 0" "ent (r self') 1 0 = 0"
    using run(6) unfolding run(3) Ninv by (simp_all add: example_simps All_less_Suc)
  then have res: "to_rows (r self') = [[0], [0]]"
    using run(4,5) by (simp add: to_rows_def example_simps)
  show ?thesis
    using sh ct iv run(1,2,3) x res by blast
qed

lemma repeated_datum_inverse:
  "exact_inv (normal_matrix repeated_datum) = Inr (of_rows [[1/2]])"
  by (simp add: example_simps)

lemma repeated_datum_is_inverse:
  "is_inverse (normal_matrix repeated_datum) (of_rows [[1/2]])"
  by (simp add: is_inverse_def example_simps All_less_Suc)

text \<open>
  Claim C2. Under the same conditions and with \<open>dof > 0\<close>, after \<^verbatim>\<open>python_lsq_inversion\<close>:
  \<open>VtPV = r\<^sup>T P r\<close> (a \<open>1 \<times> 1\<close> array), \<open>SDaposteriori\<close> is the numpy square root of \<open>VtPV / dof\<close>
  (\<^verbatim>\<open>nan\<close> if that is negative), and \<open>var\<close> is the diagonal of \<open>N\<^sup>-\<^sup>1 (VtPV / dof)\<close>.
\<close>

theorem python_lsq_inversion_statistics:
  assumes "nrows (P self) = nrows (A self)" "ncols (P self) = nrows (A self)"
    and "nrows (Obs self) = nrows (A self)" "ncols (Obs self) = 1"
    and "numpy_inv_at linalg_inv (normal_matrix self)"
    and "invertible (normal_matrix self)"
    and "0 < dof self"
  shows "\<exists>Ninv self'.
    linalg_inv (normal_matrix self) = Inr Ninv \<and> is_inverse (normal_matrix self) Ninv \<and>
    python_lsq_inversion linalg_inv self = (None, self') \<and>
    VtPV self' = mmul (mmul (np_transpose (r self')) (P self)) (r self') \<and>
    nrows (VtPV self') = 1 \<and> ncols (VtPV self') = 1 \<and>
    nrows (SDaposteriori self') = 1 \<and> ncols (SDaposteriori self') = 1 \<and>
    ent (SDaposteriori self') 0 0
      = np_sqrt (Fin (ent (VtPV self') 0 0 / real_of_int (dof self))) \<and>
    var self' = map (\<lambda>i. Fin (ent Ninv i i * (ent (VtPV self') 0 0 / real_of_int (dof self))))
                  [0..<ncols (A self)]"
proof -
  obtain Ninv where Ninv: "linalg_inv (normal_matrix self) = Inr Ninv"
    "is_inverse (normal_matrix self) Ninv"
    using invertible_returns [OF assms(5,6)] by blast
  then have sh: "nrows Ninv = ncols (A self)" "ncols Ninv = ncols (A self)"
    by (simp_all add: is_inverse_def normal_matrix_def)
  from python_lsq_inversion_returns [where linalg_inv = linalg_inv, OF assms(1-4) Ninv(1) sh]
  obtain self' where run: "python_lsq_inversion linalg_inv self = (None, self')"
    "nrows (r self') = nrows (A self)" "ncols (r self') = 1"
    "VtPV self' = mmul (mmul (np_transpose (r self')) (P self)) (r self')"
    "SDaposteriori self' = np_sqrt_nd (np_true_divide (VtPV self') (dof self))"
    "var self' = map (\<lambda>i. np_mul (Fin (ent Ninv i i))
                      (np_div (Fin (ent (VtPV self') 0 0)) (Fin (real_of_int (dof self)))))
                   [0..<ncols (A self)]"
    by blast
  have shape: "nrows (VtPV self') = 1" "ncols (VtPV self') = 1"
    by (simp_all add: run(3,4))
  have sd: "ent (SDaposteriori self') 0 0
      = np_sqrt (Fin (ent (VtPV self') 0 0 / real_of_int (dof self)))"
    using assms(7) by (simp add: run(5) np_sqrt_nd_def)
  have v: "var self' = map (\<lambda>i. Fin (ent Ninv i i * (ent (VtPV self') 0 0 / real_of_int (dof self))))
                  [0..<ncols (A self)]"
    using assms(7) by (simp add: run(6))
  show ?thesis
    using Ninv run(1,4) shape sd v by (simp add: run(5))
qed

theorem python_lsq_inversion_statistics_witness:
  "nrows (P repeated_datum) = nrows (A repeated_datum) \<and>
   ncols (P repeated_datum) = nrows (A repeated_datum) \<and>
   nrows (Obs repeated_datum) = nrows (A repeated_datum) \<and>
   ncols (Obs repeated_datum) = 1 \<and>
   numpy_inv_at exact_inv (normal_matrix repeated_datum) \<and>
   invertible (normal_matrix repeated_datum) \<and>
   0 < dof repeated_datum \<and>
   (\<exists>self'. python_lsq_inversion exact_inv repeated_datum = (None, self') \<and>
      to_rows (X self') = [[2]] \<and>
      to_rows (VtPV self') = [[2]] \<and>
      to_rows (SDaposteriori self') = [[Fin (sqrt 2)]] \<and>
      var self' = [Fin 1])"
proof -
  have sh: "nrows (P repeated_datum) = nrows (A repeated_datum)"
    "ncols (P repeated_datum) = nrows (A repeated_datum)"
    "nrows (Obs repeated_datum) = nrows (A repeated_datum)"
    "ncols (Obs repeated_datum) = 1"
    by (simp_all add: example_simps)
  have ct: "numpy_inv_at exact_inv (normal_matrix repeated_datum)"
    by (simp add: numpy_inv_at_def repeated_datum_inverse repeated_datum_is_inverse)
  have iv: "invertible (normal_matrix repeated_datum)"
    using repeated_datum_is_inverse by (auto simp: invertible_def)
  have df: "0 < dof repeated_datum"
    by (simp add: example_simps)
  from python_lsq_inversion_statistics [OF sh ct iv df]
  obtain Ninv self' where run: "exact_inv (normal_matrix repeated_datum) = Inr Ninv"
    "python_lsq_inversion exact_inv repeated_datum = (None, self')"
    "VtPV self' = mmul (mmul (np_transpose (r self')) (P repeated_datum)) (r self')"
    "nrows (VtPV self') = 1" "ncols (VtPV self') = 1"
    "nrows (SDaposteriori self') = 1" "ncols (SDaposteriori self') = 1"
    "ent (SDaposteriori self') 0 0
      = np_sqrt (Fin (ent (VtPV self') 0 0 / real_of_int (dof repeated_datum)))"
    "var self' = map (\<lambda>i. Fin (ent Ninv i i
                    * (ent (VtPV self') 0 0 / real_of_int (dof repeated_datum))))
                  [0..<ncols (A repeated_datum)]"
    by blast
  from run(1) have Ninv: "Ninv = of_rows [[1/2]]"
    by (simp add: repeated_datum_inverse)
  have shN: "nrows (of_rows [[1/2::real]]) = ncols (A repeated_datum)"
    "ncols (of_rows [[1/2::real]]) = ncols (A repeated_datum)"
    by (simp_all add: example_simps)
  from python_lsq_inversion_returns [where linalg_inv = exact_inv,
      OF sh repeated_datum_inverse shN] run(2)
  have x: "X self' = mmul (mmul (mmul (of_rows [[1/2]]) (np_transpose (A repeated_datum)))
                       (P repeated_datum)) (Obs repeated_datum)"
    and rs: "nrows (r self') = nrows (A repeated_datum)"
      "\<forall>i<nrows (A repeated_datum).
        ent (r self') i 0 = ent (mmul (A repeated_datum) (X self')) i 0
          - ent (Obs repeated_datum) i 0"
    by auto
  have x2: "to_rows (X self') = [[2]]"
    unfolding x by (simp add: to_rows_def example_simps)
  have "ent (r self') 0 0 = 1" "ent (r self') 1 0 = -1"
    using rs(2) unfolding x by (simp_all add: example_simps All_less_Suc)
  then have v00: "ent (VtPV self') 0 0 = 2"
    using rs(1) by (simp add: run(3) example_simps)
  have v: "to_rows (VtPV self') = [[2]]"
    using v00 run(4,5) by (simp add: to_rows_def)
  have sd: "to_rows (SDaposteriori self') = [[Fin (sqrt 2)]]"
    using run(6,7,8) v00 by (simp add: to_rows_def example_simps)
  have w: "var self' = [Fin 1]"
    using run(9) v00 unfolding Ninv by (simp add: example_simps)
  show ?thesis
    using sh ct iv df run(2) x2 v sd w by blast
qed




text \<open>
  Claim C10. However \<^verbatim>\<open>python_lsq_inversion\<close> ends (returning, or raising part of the way),
  it has written at most \<open>X\<close>, \<open>r\<close>, \<open>VtPV\<close>, \<open>SDaposteriori\<close> and \<open>var\<close>: the inputs \<open>A\<close>, \<open>P\<close>,
  \<open>Obs\<close>, \<open>dof\<close>, \<open>deltas\<close>, \<open>datums\<close> and \<open>adjustmentoptions\<close> are as they were, and so is every
  other attribute.
\<close>

theorem python_lsq_inversion_frame:
  assumes "python_lsq_inversion linalg_inv self = (e, self')"
  shows "A self' = A self \<and> P self' = P self \<and> Obs self' = Obs self \<and> dof self' = dof self \<and>
    deltas self' = deltas self \<and> datums self' = datums self \<and>
    adjustmentoptions self' = adjustmentoptions self \<and>
    self' = self\<lparr>X := X self', r := r self', VtPV := VtPV self',
                  SDaposteriori := SDaposteriori self', var := var self'\<rparr>"
proof -
  have "snd (python_lsq_inversion linalg_inv self) =
      self\<lparr>X := X (snd (python_lsq_inversion linalg_inv self)),
           r := r (snd (python_lsq_inversion linalg_inv self)),
           VtPV := VtPV (snd (python_lsq_inversion linalg_inv self)),
           SDaposteriori := SDaposteriori (snd (python_lsq_inversion linalg_inv self)),
           var := var (snd (python_lsq_inversion linalg_inv self))\<rparr>"
    unfolding python_lsq_inversion_def Let_def
    by (simp split: sum.split)
  then have eq: "self' = self\<lparr>X := X self', r := r self', VtPV := VtPV self',
                  SDaposteriori := SDaposteriori self', var := var self'\<rparr>"
    by (simp add: assms)
  have "A self' = A self \<and> P self' = P self \<and> Obs self' = Obs self \<and> dof self' = dof self \<and>
    deltas self' = deltas self \<and> datums self' = datums self \<and>
    adjustmentoptions self' = adjustmentoptions self"
    by (subst eq, simp)+
  with eq show ?thesis by blast
qed

theorem python_lsq_inversion_frame_witness:
  "(\<exists>self'. python_lsq_inversion exact_inv two_station_network = (None, self') \<and>
      A self' = A two_station_network \<and> P self' = P two_station_network \<and>
      Obs self' = Obs two_station_network \<and> dof self' = dof two_station_network \<and>
      deltas self' = deltas two_station_network \<and> datums self' = datums two_station_network \<and>
      adjustmentoptions self' = adjustmentoptions two_station_network \<and>
      self' = two_station_network\<lparr>X := X self', r := r self', VtPV := VtPV self',
                  SDaposteriori := SDaposteriori self', var := var self'\<rparr>)"
proof -
  have sh: "nrows (P two_station_network) = nrows (A two_station_network)"
    "ncols (P two_station_network) = nrows (A two_station_network)"
    "nrows (Obs two_station_network) = nrows (A two_station_network)"
    "ncols (Obs two_station_network) = 1"
    by (simp_all add: example_simps)
  have shN: "nrows (of_rows [[1/4, 1/4], [1/4, 5/4::real]]) = ncols (A two_station_network)"
    "ncols (of_rows [[1/4, 1/4], [1/4, 5/4::real]]) = ncols (A two_station_network)"
    by (simp_all add: example_simps)
  from python_lsq_inversion_returns [where linalg_inv = exact_inv,
      OF sh two_station_inverse shN]
  obtain self' where run: "python_lsq_inversion exact_inv two_station_network = (None, self')"
    by blast
  from python_lsq_inversion_frame [OF run] run show ?thesis
    by blast
qed

text \<open>
  The solution satisfies the normal equations: with \<open>N\<close> invertible, the \<open>X\<close> that
  \<^verbatim>\<open>python_lsq_inversion\<close> stores has \<open>N X = A\<^sup>T P Obs\<close>.
\<close>

theorem python_lsq_inversion_normal_equations:
  assumes "nrows (P self) = nrows (A self)" "ncols (P self) = nrows (A self)"
    and "nrows (Obs self) = nrows (A self)" "ncols (Obs self) = 1"
    and "numpy_inv_at linalg_inv (normal_matrix self)"
    and "invertible (normal_matrix self)"
  shows "\<exists>self'. python_lsq_inversion linalg_inv self = (None, self') \<and>
    (\<forall>i<ncols (A self).
       ent (mmul (normal_matrix self) (X self')) i 0
         = ent (mmul (mmul (np_transpose (A self)) (P self)) (Obs self)) i 0)"
proof -
  let ?N = "normal_matrix self"
  let ?AtP = "mmul (np_transpose (A self)) (P self)"
  obtain Ninv where Ninv: "linalg_inv ?N = Inr Ninv" "is_inverse ?N Ninv"
    using invertible_returns [OF assms(5,6)] by blast
  then have sh: "nrows Ninv = ncols (A self)" "ncols Ninv = ncols (A self)"
    by (simp_all add: is_inverse_def normal_matrix_def)
  from python_lsq_inversion_returns [where linalg_inv = linalg_inv, OF assms(1-4) Ninv(1) sh]
  obtain self' where run: "python_lsq_inversion linalg_inv self = (None, self')"
    "X self' = mmul (mmul (mmul Ninv (np_transpose (A self))) (P self)) (Obs self)"
    by blast
  have id: "\<forall>i<ncols (A self). \<forall>k<ncols (A self).
      ent (mmul ?N Ninv) i k = (if i = k then 1 else 0)"
    using Ninv(2) by (simp add: is_inverse_def normal_matrix_def)
  have "mmul ?N (X self') = mmul (mmul (mmul ?N Ninv) ?AtP) (Obs self)"
    by (simp add: run(2) mmul_assoc)
  moreover have "ent (mmul (mmul (mmul ?N Ninv) ?AtP) (Obs self)) i 0
      = ent (mmul ?AtP (Obs self)) i 0" if "i < ncols (A self)" for i
  proof -
    have "ent (mmul (mmul ?N Ninv) ?AtP) i l = ent ?AtP i l" for l
      using mmul_identity_left [OF _ id that, of ?AtP l] sh by simp
    then show ?thesis
      by (simp add: mmul_def)
  qed
  ultimately show ?thesis
    using run(1) by simp
qed

theorem python_lsq_inversion_normal_equations_witness:
  "nrows (P two_station_network) = nrows (A two_station_network) \<and>
   ncols (P two_station_network) = nrows (A two_station_network) \<and>
   nrows (Obs two_station_network) = nrows (A two_station_network) \<and>
   ncols (Obs two_station_network) = 1 \<and>
   numpy_inv_at exact_inv (normal_matrix two_station_network) \<and>
   invertible (normal_matrix two_station_network) \<and>
   (\<exists>self'. python_lsq_inversion exact_inv two_station_network = (None, self') \<and>
      ent (mmul (normal_matrix two_station_network) (X self')) 0 0 = 3920010 \<and>
      ent (mmul (normal_matrix two_station_network) (X self')) 1 0 = - 10)"
proof -
  have sh: "nrows (P two_station_network) = nrows (A two_station_network)"
    "ncols (P two_station_network) = nrows (A two_station_network)"
    "nrows (Obs two_station_network) = nrows (A two_station_network)"
    "ncols (Obs two_station_network) = 1"
    by (simp_all add: example_simps)
  have ct: "numpy_inv_at exact_inv (normal_matrix two_station_network)"
    by (simp add: numpy_inv_at_def two_station_inverse two_station_is_inverse)
  have iv: "invertible (normal_matrix two_station_network)"
    using two_station_is_inverse by (auto simp: invertible_def)
  from python_lsq_inversion_normal_equations [OF sh ct iv]
  obtain self' where run: "python_lsq_inversion exact_inv two_station_network = (None, self')"
    "\<forall>i<ncols (A two_station_network).
       ent (mmul (normal_matrix two_station_network) (X self')) i 0
         = ent (mmul (mmul (np_transpose (A two_station_network)) (P two_station_network))
                  (Obs two_station_network)) i 0"
    by blast
  from run(2) have "ent (mmul (normal_matrix two_station_network) (X self')) 0 0 = 3920010"
    "ent (mmul (normal_matrix two_station_network) (X self')) 1 0 = - 10"
    by (simp_all add: All_less_Suc two_station_network_def Adjustment_init_def of_rows_def
        np_transpose_def mmul_def [of "\<lparr>nrows = _, ncols = _, ent = _\<rparr>"])
  with sh ct iv run(1) show ?thesis
    by blast
qed

section \<open>Properties of the statistics\<close>

lemma getitem2_first:
  "0 < nrows M \<Longrightarrow> 0 < ncols M \<Longrightarrow> getitem2 M 0 0 = Inr (ent M 0 0)"
  by (simp add: getitem2_def py_index_def)

lemma np_pow_Fin [simp]: "np_pow (Fin x) n = Fin (x ^ n)"
  by (induction n) simp_all

lemma t_spec_nonneg: "0 < a \<Longrightarrow> a \<le> 1 \<Longrightarrow> 0 \<le> 2 * ln (1 / a)" for a :: real
  by (simp add: ln_div)

lemma z_denominator_pos:
  "0 \<le> t \<Longrightarrow> 0 < 1 + 1.432788 * t + 0.189269 * t\<^sup>2 + 0.001308 * t ^ 3" for t :: real
proof -
  assume "0 \<le> t"
  then have "0 \<le> 1.432788 * t" "0 \<le> 0.189269 * t\<^sup>2" "0 \<le> 0.001308 * t ^ 3"
    by simp_all
  then show ?thesis by linarith
qed


lemma chi_1_alpha_Fin:
  assumes "0 \<le> t"
  shows "np_sub (Fin t)
              (np_div
                (np_add (np_add (Fin 2.515517) (np_mul (Fin 0.802853) (Fin t)))
                        (np_mul (Fin 0.010328) (np_pow (Fin t) 2)))
                (np_add (np_add (np_add (Fin 1) (np_mul (Fin 1.432788) (Fin t)))
                                (np_mul (Fin 0.189269) (np_pow (Fin t) 2)))
                        (np_mul (Fin 0.001308) (np_pow (Fin t) 3))))
           = Fin (z_spec t)"
proof -
  have "1 + 1.432788 * t + 0.189269 * t\<^sup>2 + 0.001308 * t ^ 3 \<noteq> 0"
    using z_denominator_pos [OF assms] by simp
  then show ?thesis
    by (simp add: np_sub_def z_spec_def)
qed

lemma t_Fin:
  assumes "0 < a" "a \<le> 1"
  shows "np_sqrt (np_mul (Fin 2) (np_log (Fin (1 / a)))) = Fin (t_spec a)"
  using assms t_spec_nonneg [OF assms] by (simp add: t_spec_def)

lemma t_spec_ge0: "0 < a \<Longrightarrow> a \<le> 1 \<Longrightarrow> 0 \<le> t_spec a"
  using t_spec_nonneg [of a] by (simp add: t_spec_def)

lemma chi2c_Fin:
  assumes "0 < d"
  shows "np_mul (Fin d)
                 (np_pow (np_sub (np_add (np_mul (Fin z) (np_sqrt (Fin (2 / (9 * d)))))
                                         (Fin 1))
                                 (Fin (2 / (9 * d))))
                         3)
         = Fin (d * (z * sqrt (2 / (9 * d)) + 1 - 2 / (9 * d)) ^ 3)"
  using assms by (simp add: np_sub_def)

lemma lsq_statistics_returns:
  assumes "0 < alpha (adjustmentoptions self)" "alpha (adjustmentoptions self) \<le> 1"
    and "0 < dof self" "0 < nrows (VtPV self)" "0 < ncols (VtPV self)"
  shows "lsq_statistics self =
    (None, self\<lparr>adjustmentresults := (adjustmentresults self)
       \<lparr>chi2 := Np (Fin (ent (VtPV self) 0 0)),
        AdjustmentResults.dof := Some (dof self),
        chi2c := Np (Fin (chi2c_spec (alpha (adjustmentoptions self))
                           (real_of_int (dof self))))\<rparr>\<rparr>)"
proof -
  have d: "0 < real_of_int (dof self)" using assms(3) by simp
  have a0: "alpha (adjustmentoptions self) \<noteq> 0" using assms(1) by simp
  show ?thesis
    using assms(3)
    unfolding lsq_statistics_def Let_def
    apply (simp only: getitem2_first [OF assms(4,5)] sum.case t_Fin [OF assms(1,2)]
        chi_1_alpha_Fin [OF t_spec_ge0 [OF assms(1,2)]])
    apply (simp add: a0 d chi2c_Fin [OF d] chi2c_spec_def del: np_pow_Fin np_mul.simps np_sqrt.simps)
    done
qed


lemma python_lsq_inversion_keeps_dof:
  "dof (snd (python_lsq_inversion linalg_inv self)) = dof self"
  unfolding python_lsq_inversion_def Let_def
  by (simp split: sum.split)

lemma python_lsq_inversion_keeps_options:
  "adjustmentoptions (snd (python_lsq_inversion linalg_inv self)) = adjustmentoptions self"
  unfolding python_lsq_inversion_def Let_def
  by (simp split: sum.split)

lemma python_lsq_inversion_keeps_results:
  "adjustmentresults (snd (python_lsq_inversion linalg_inv self)) = adjustmentresults self"
  unfolding python_lsq_inversion_def Let_def
  by (simp split: sum.split)

lemma lsq_statistics_raises:
  assumes "dof self = 0" "0 < nrows (VtPV self)" "0 < ncols (VtPV self)"
  shows "lsq_statistics self =
    (Some ZeroDivisionError,
     self\<lparr>adjustmentresults := (adjustmentresults self)
       \<lparr>chi2 := Np (Fin (ent (VtPV self) 0 0)), AdjustmentResults.dof := Some 0\<rparr>\<rparr>)"
  unfolding lsq_statistics_def Let_def
  by (simp add: getitem2_first [OF assms(2,3)] assms(1))

text \<open>
  Claim C3. With \<open>dof > 0\<close> and \<open>0 < alpha < 1\<close> (and \<open>VtPV\<close> holding an entry \<^verbatim>\<open>[0][0]\<close>),
  \<^verbatim>\<open>lsq_statistics\<close> returns normally, stores \<open>chi2 = VtPV[0][0]\<close> and stores as \<open>chi2c\<close> the value
  \<open>dof (z sqrt(2/(9 dof)) + 1 - 2/(9 dof))\<^sup>3\<close>, with \<open>t = sqrt(2 ln(1/alpha))\<close> and \<open>z\<close> the rational
  expression in \<open>t\<close> of the specification (\<open>chi2c_spec\<close>, \<open>z_spec\<close>, \<open>t_spec\<close>).
\<close>

theorem lsq_statistics_chi2:
  assumes "0 < dof self"
    and "0 < alpha (adjustmentoptions self)" "alpha (adjustmentoptions self) < 1"
    and "0 < nrows (VtPV self)" "0 < ncols (VtPV self)"
  shows "\<exists>self'. lsq_statistics self = (None, self') \<and>
    chi2 (adjustmentresults self') = Np (Fin (ent (VtPV self) 0 0)) \<and>
    chi2c (adjustmentresults self')
      = Np (Fin (chi2c_spec (alpha (adjustmentoptions self)) (real_of_int (dof self)))) \<and>
    AdjustmentResults.dof (adjustmentresults self') = Some (dof self)"
proof -
  have "alpha (adjustmentoptions self) \<le> 1" using assms(3) by simp
  from lsq_statistics_returns [OF assms(2) this assms(1,4,5)]
  show ?thesis by simp
qed

theorem lsq_statistics_chi2_witness:
  "0 < dof (repeated_datum\<lparr>VtPV := of_rows [[2]]\<rparr>) \<and>
   0 < alpha (adjustmentoptions (repeated_datum\<lparr>VtPV := of_rows [[2]]\<rparr>)) \<and>
   alpha (adjustmentoptions (repeated_datum\<lparr>VtPV := of_rows [[2]]\<rparr>)) < 1 \<and>
   0 < nrows (VtPV (repeated_datum\<lparr>VtPV := of_rows [[2]]\<rparr>)) \<and>
   0 < ncols (VtPV (repeated_datum\<lparr>VtPV := of_rows [[2]]\<rparr>)) \<and>
   (\<exists>self'. lsq_statistics (repeated_datum\<lparr>VtPV := of_rows [[2]]\<rparr>) = (None, self') \<and>
      chi2 (adjustmentresults self') = Np (Fin 2) \<and>
      chi2c (adjustmentresults self') = Np (Fin (chi2c_spec (1/20) 1)) \<and>
      AdjustmentResults.dof (adjustmentresults self') = Some 1)"
proof -
  let ?s = "repeated_datum\<lparr>VtPV := of_rows [[2]]\<rparr>"
  have h: "0 < dof ?s" "0 < alpha (adjustmentoptions ?s)" "alpha (adjustmentoptions ?s) < 1"
    "0 < nrows (VtPV ?s)" "0 < ncols (VtPV ?s)"
    by (simp_all add: example_simps AdjustmentOptions_init_def)
  have v: "ent (VtPV ?s) 0 0 = 2" "alpha (adjustmentoptions ?s) = 1/20" "dof ?s = 1"
    by (simp_all add: example_simps AdjustmentOptions_init_def)
  from lsq_statistics_chi2 [OF h] h show ?thesis
    unfolding v by simp
qed

text \<open>
  Claim C4 says that with \<open>dof = 0\<close> the chi-square stage reports the test as not applicable
  and that no division by zero can be reached. The code has no such guard. On the two-station
  network of the specification (one delta, one datum, \<open>dof = 0\<close>), solved by
  \<^verbatim>\<open>python_lsq_inversion\<close>, \<^verbatim>\<open>lsq_statistics\<close> raises \<^verbatim>\<open>ZeroDivisionError\<close>.
\<close>

theorem lsq_statistics_dof_zero_counterexample:
  "fst (lsq_statistics (snd (python_lsq_inversion exact_inv two_station_network)))
     = Some ZeroDivisionError"
proof -
  let ?s = "snd (python_lsq_inversion exact_inv two_station_network)"
  have sh: "nrows (P two_station_network) = nrows (A two_station_network)"
    "ncols (P two_station_network) = nrows (A two_station_network)"
    "nrows (Obs two_station_network) = nrows (A two_station_network)"
    "ncols (Obs two_station_network) = 1"
    by (simp_all add: example_simps)
  have shN: "nrows (of_rows [[1/4, 1/4], [1/4, 5/4::real]]) = ncols (A two_station_network)"
    "ncols (of_rows [[1/4, 1/4], [1/4, 5/4::real]]) = ncols (A two_station_network)"
    by (simp_all add: example_simps)
  from python_lsq_inversion_returns [where linalg_inv = exact_inv,
      OF sh two_station_inverse shN]
  have "nrows (VtPV ?s) = 1" "ncols (VtPV ?s) = 1"
    by auto
  then have v: "0 < nrows (VtPV ?s)" "0 < ncols (VtPV ?s)"
    by simp_all
  have d: "dof ?s = 0"
    by (simp add: python_lsq_inversion_keeps_dof) (simp add: example_simps)
  show ?thesis
    by (simp add: lsq_statistics_raises [OF d v])
qed

text \<open>
  Claim C4, as the code has it. With \<open>dof = 0\<close> (and \<open>VtPV\<close> holding an entry \<^verbatim>\<open>[0][0]\<close>),
  \<^verbatim>\<open>lsq_statistics\<close> stores \<open>chi2\<close> and \<open>dof\<close> in the results and then raises
  \<^verbatim>\<open>ZeroDivisionError\<close>, leaving \<open>chi2c\<close> as it was. \<^verbatim>\<open>get_report\<close> on these results raises
  nothing: its line \<^verbatim>\<open>SD a posteriori\<close> formats the numpy quotient \<open>chi2 / 0\<close> (\<^verbatim>\<open>inf\<close>, \<^verbatim>\<open>-inf\<close>
  or \<^verbatim>\<open>nan\<close>) and its line \<^verbatim>\<open>Chi-test\<close> says accepted or rejected, from the \<open>chi2c\<close> left over.
\<close>

theorem lsq_statistics_dof_zero:
  assumes "dof self = 0" "0 < nrows (VtPV self)" "0 < ncols (VtPV self)"
  shows "\<exists>self' report.
    lsq_statistics self = (Some ZeroDivisionError, self') \<and>
    chi2 (adjustmentresults self') = Np (Fin (ent (VtPV self) 0 0)) \<and>
    AdjustmentResults.dof (adjustmentresults self') = Some 0 \<and>
    chi2c (adjustmentresults self') = chi2c (adjustmentresults self) \<and>
    get_report fmt (adjustmentresults self') = Inr report \<and>
    report ! 4 = ''SD a posteriori:                     ''
       @ format_f fmt ''4f'' (Np (np_div (Fin (ent (VtPV self) 0 0)) (Fin 0))) \<and>
    report ! 7 = ''Chi-test ''
       @ (if scalar_less (Np (Fin (ent (VtPV self) 0 0))) (chi2c (adjustmentresults self))
          then ''accepted'' else ''rejected'')"
  unfolding lsq_statistics_raises [OF assms]
  by (simp add: get_report_def del: np_div.simps)

theorem lsq_statistics_dof_zero_witness:
  "dof (two_station_network\<lparr>VtPV := of_rows [[0]]\<rparr>) = 0 \<and>
   0 < nrows (VtPV (two_station_network\<lparr>VtPV := of_rows [[0]]\<rparr>)) \<and>
   0 < ncols (VtPV (two_station_network\<lparr>VtPV := of_rows [[0]]\<rparr>)) \<and>
   (\<exists>self' report.
      lsq_statistics (two_station_network\<lparr>VtPV := of_rows [[0]]\<rparr>)
        = (Some ZeroDivisionError, self') \<and>
      get_report \<lparr>format_d = (\<lambda>n. ''d''), format_f = (\<lambda>spec x. if x = Np NaN then ''nan'' else ''f'')\<rparr>
        (adjustmentresults self') = Inr report \<and>
      report ! 4 = ''SD a posteriori:                     nan'' \<and>
      report ! 7 = ''Chi-test rejected'')"
proof -
  let ?s = "two_station_network\<lparr>VtPV := of_rows [[0]]\<rparr>"
  let ?f = "\<lparr>format_d = (\<lambda>n. ''d''), format_f = (\<lambda>spec x. if x = Np NaN then ''nan'' else ''f'')\<rparr>"
  have h: "dof ?s = 0" "0 < nrows (VtPV ?s)" "0 < ncols (VtPV ?s)"
    by (simp_all add: example_simps)
  have v: "ent (VtPV ?s) 0 0 = 0" "chi2c (adjustmentresults ?s) = Py 0"
    by (simp_all add: example_simps AdjustmentResults_init_def)
  from lsq_statistics_dof_zero [OF h, of ?f] h show ?thesis
    unfolding v by (simp add: scalar_less_def) blast
qed

section \<open>Properties of the report\<close>

lemma get_report_returns:
  assumes "AdjustmentResults.dof self = Some d" "scalar_div (chi2 self) d = Inr sd"
  shows "get_report fmt self =
    Inr [''Number of unknowns:                  '' @ format_d fmt (n_unknowns self),
         ''Number of relative observations:     '' @ format_d fmt (n_deltas self),
         ''Number of absolute observations:     '' @ format_d fmt (n_datums self),
         ''Degrees of freedom (nobs-nunknowns): '' @ format_d fmt d,
         ''SD a posteriori:                     '' @ format_f fmt ''4f'' sd,
         ''chi square value:                  '' @ format_f fmt ''6.2f'' (chi2 self),
         ''critical chi square value:         '' @ format_f fmt ''6.2f'' (chi2c self),
         ''Chi-test '' @ (if scalar_less (chi2 self) (chi2c self)
                          then ''accepted'' else ''rejected''),
         ''Average standard deviation:          '' @ format_f fmt ''.2f'' (avg_stdev self),
         ''Maximum delta residual:              '' @ format_f fmt ''.2f'' (max_dg_residual self),
         ''Maximum absolute datum residual:     ''
            @ format_f fmt ''.2f'' (max_datum_residual self),
         ''Minimum absolute datum residual:     ''
            @ format_f fmt ''.2f'' (min_datum_residual self)]"
  using assms by (simp add: get_report_def)





text \<open>
  Claim C7. On results whose \<open>dof\<close> is set and not zero, \<^verbatim>\<open>get_report\<close> returns a report whose
  line \<^verbatim>\<open>SD a posteriori\<close> formats the quotient \<open>chi2 / dof\<close> itself: no square root is taken.
\<close>

theorem get_report_sd_line:
  assumes "AdjustmentResults.dof self = Some d" "d \<noteq> 0"
  shows "\<exists>report q. get_report fmt self = Inr report \<and>
    report ! 4 = ''SD a posteriori:                     '' @ format_f fmt ''4f'' q \<and>
    to_np q = np_div (to_np (chi2 self)) (Fin (real_of_int d)) \<and>
    (\<forall>c. to_np (chi2 self) = Fin c \<longrightarrow> to_np q = Fin (c / real_of_int d))"
proof -
  obtain q where q: "scalar_div (chi2 self) d = Inr q"
    "to_np q = np_div (to_np (chi2 self)) (Fin (real_of_int d))"
    using assms(2) by (cases "chi2 self") simp_all
  have fin: "\<forall>c. to_np (chi2 self) = Fin c \<longrightarrow> to_np q = Fin (c / real_of_int d)"
    using q(2) assms(2) by simp
  obtain report where report: "get_report fmt self = Inr report"
    "report ! 4 = ''SD a posteriori:                     '' @ format_f fmt ''4f'' q"
    using get_report_returns [OF assms(1) q(1), of fmt] by simp
  from report q(2) fin show ?thesis
    by blast
qed

theorem get_report_sd_line_witness:
  "AdjustmentResults.dof (AdjustmentResults_init\<lparr>chi2 := Np (Fin 8),
       AdjustmentResults.dof := Some 2\<rparr>) = Some 2 \<and> (2::int) \<noteq> 0 \<and>
   (\<exists>report q.
      get_report \<lparr>format_d = (\<lambda>n. ''#''),
                  format_f = (\<lambda>spec x. if to_np x = Fin 4 then ''4.000000'' else ''#.#'')\<rparr>
        (AdjustmentResults_init\<lparr>chi2 := Np (Fin 8), AdjustmentResults.dof := Some 2\<rparr>)
        = Inr report \<and>
      report ! 4 = ''SD a posteriori:                     4.000000'' \<and>
      to_np q = Fin 4)"
proof -
  let ?res = "AdjustmentResults_init\<lparr>chi2 := Np (Fin 8), AdjustmentResults.dof := Some 2\<rparr>"
  let ?f = "\<lparr>format_d = (\<lambda>n. ''#''),
            format_f = (\<lambda>spec x. if to_np x = Fin 4 then ''4.000000'' else ''#.#'')\<rparr>"
  have h: "AdjustmentResults.dof ?res = Some 2" "(2::int) \<noteq> 0"
    by simp_all
  have c: "to_np (chi2 ?res) = Fin 8"
    by simp
  from get_report_sd_line [OF h, of ?f]
  obtain report q where run: "get_report ?f ?res = Inr report"
    "report ! 4 = ''SD a posteriori:                     '' @ format_f ?f ''4f'' q"
    "\<forall>c. to_np (chi2 ?res) = Fin c \<longrightarrow> to_np q = Fin (c / real_of_int 2)"
    by blast
  from run(3) c have q: "to_np q = Fin 4"
    by simp
  then have "report ! 4 = ''SD a posteriori:                     4.000000''"
    using run(2) by simp
  with h run(1) q show ?thesis
    by blast
qed

text \<open>What \<^verbatim>\<open>results_string\<close> appends to the report in each calibration mode.\<close>

lemma results_string_calibration:
  assumes "text_lines (adjustmentresults self) = []" "0 < n_unknowns (adjustmentresults self)"
    and "get_report fmt (adjustmentresults self) = Inr report"
    and "cal_coeff (adjustmentoptions self)" "netadj_loop_keys self = []"
  shows "results_string fmt self =
    Inr (Lines (report @
      map (\<lambda>(k, v). ''Calibration coefficient for meter '' @ k @ '': ''
                    @ format_f fmt ''.6f'' (fst v) @ '' +/- '' @ format_f fmt ''.6f'' (snd v))
          (cal_dic (adjustmentresults self))))"
  using assms
  by (simp add: results_string_def results_string_body_def calibration_lines_def)

lemma results_string_no_calibration:
  assumes "text_lines (adjustmentresults self) = []" "0 < n_unknowns (adjustmentresults self)"
    and "get_report fmt (adjustmentresults self) = Inr report"
    and "\<not> cal_coeff (adjustmentoptions self)" "\<not> specify_cal_coeff (adjustmentoptions self)"
    and "netadj_loop_keys self = []"
  shows "results_string fmt self = Inr (Lines report)"
  using assms
  by (simp add: results_string_def results_string_body_def calibration_lines_def)

lemma results_string_specified:
  assumes "text_lines (adjustmentresults self) = []" "0 < n_unknowns (adjustmentresults self)"
    and "get_report fmt (adjustmentresults self) = Inr report"
    and "\<not> cal_coeff (adjustmentoptions self)" "specify_cal_coeff (adjustmentoptions self)"
    and "AdjustmentResults.meter_cal_dict (adjustmentresults self) = None"
  shows "results_string fmt self = Inr EmptyStr"
  using assms
  by (simp add: results_string_def results_string_body_def calibration_lines_def)

text \<open>
  Claim C9 at an adjustment with user-specified calibration coefficients: the branch for
  \<^verbatim>\<open>specify_cal_coeff\<close> reads \<^verbatim>\<open>meter_cal_dict\<close> from \<^verbatim>\<open>self.adjustmentresults\<close>, which has no such
  attribute (the table is in \<^verbatim>\<open>self.adjustmentoptions\<close>); the \<^verbatim>\<open>AttributeError\<close> is caught and
  \<^verbatim>\<open>results_string\<close> returns the empty string: no specified-coefficient line, and no report.
\<close>

theorem results_string_specified_calibration_run:
  "results_string fmt specified_calibration_run = Inr EmptyStr \<and>
   specify_cal_coeff (adjustmentoptions specified_calibration_run) \<and>
   \<not> cal_coeff (adjustmentoptions specified_calibration_run) \<and>
   AdjustmentOptions.meter_cal_dict (adjustmentoptions specified_calibration_run)
     = Some [(''B44'', Py 1.0002)] \<and>
   0 < n_unknowns (adjustmentresults specified_calibration_run) \<and>
   (\<exists>report. get_report fmt (adjustmentresults specified_calibration_run) = Inr report)"
proof -
  have r: "adjustmentresults specified_calibration_run =
      AdjustmentResults_init\<lparr>n_deltas := 3, n_datums := 1, n_unknowns := 3,
                               chi2 := Np (Fin 2), chi2c := Np (Fin 3.84),
                               AdjustmentResults.dof := Some 1\<rparr>"
    and o: "adjustmentoptions specified_calibration_run =
      AdjustmentOptions_init\<lparr>specify_cal_coeff := True,
                              AdjustmentOptions.meter_cal_dict := Some [(''B44'', Py 1.0002)]\<rparr>"
    by (simp_all add: specified_calibration_run_def Adjustment_init_def)
  obtain report where g: "get_report fmt (adjustmentresults specified_calibration_run) = Inr report"
    unfolding r by (simp add: get_report_def)
  have "results_string fmt specified_calibration_run = Inr EmptyStr"
    by (rule results_string_specified [OF _ _ g])
       (simp_all add: r o AdjustmentResults_init_def AdjustmentOptions_init_def)
  with g show ?thesis
    by (auto simp: r o AdjustmentResults_init_def AdjustmentOptions_init_def)
qed

text \<open>
  With \<^verbatim>\<open>cal_coeff\<close> set (and results whose \<open>dof\<close> is set and not zero, no text of an external
  solver and no drift loops), \<^verbatim>\<open>results_string\<close> returns the report followed by one line for
  each meter of \<^verbatim>\<open>cal_dic\<close>, with the coefficient and its uncertainty.
\<close>

theorem results_string_cal_coeff:
  assumes "text_lines (adjustmentresults self) = []" "0 < n_unknowns (adjustmentresults self)"
    and "AdjustmentResults.dof (adjustmentresults self) = Some d" "d \<noteq> 0"
    and "cal_coeff (adjustmentoptions self)" "netadj_loop_keys self = []"
  shows "\<exists>report. get_report fmt (adjustmentresults self) = Inr report \<and>
    results_string fmt self =
      Inr (Lines (report @
        map (\<lambda>(k, v). ''Calibration coefficient for meter '' @ k @ '': ''
                    @ format_f fmt ''.6f'' (fst v) @ '' +/- '' @ format_f fmt ''.6f'' (snd v))
            (cal_dic (adjustmentresults self))))"
proof -
  obtain q where "scalar_div (chi2 (adjustmentresults self)) d = Inr q"
    using assms(4) by (cases "chi2 (adjustmentresults self)") simp_all
  from get_report_returns [OF assms(3) this, of fmt]
  obtain report where report: "get_report fmt (adjustmentresults self) = Inr report"
    by blast
  from results_string_calibration [OF assms(1,2) report assms(5,6)] report
  show ?thesis by blast
qed

theorem results_string_cal_coeff_witness:
  "text_lines (adjustmentresults solved_calibration_run) = [] \<and>
   0 < n_unknowns (adjustmentresults solved_calibration_run) \<and>
   AdjustmentResults.dof (adjustmentresults solved_calibration_run) = Some 1 \<and>
   (1::int) \<noteq> 0 \<and>
   cal_coeff (adjustmentoptions solved_calibration_run) \<and>
   netadj_loop_keys solved_calibration_run = [] \<and>
   (\<exists>report. get_report mask_format (adjustmentresults solved_calibration_run) = Inr report \<and>
      results_string mask_format solved_calibration_run =
        Inr (Lines (report @ [''Calibration coefficient for meter B44: #.# +/- #.#''])))"
proof -
  have h: "text_lines (adjustmentresults solved_calibration_run) = []"
    "0 < n_unknowns (adjustmentresults solved_calibration_run)"
    "AdjustmentResults.dof (adjustmentresults solved_calibration_run) = Some 1"
    "(1::int) \<noteq> 0"
    "cal_coeff (adjustmentoptions solved_calibration_run)"
    "netadj_loop_keys solved_calibration_run = []"
    by (simp_all add: solved_calibration_run_def Adjustment_init_def AdjustmentResults_init_def
        AdjustmentOptions_init_def)
  have c: "cal_dic (adjustmentresults solved_calibration_run) = [(''B44'', Py 1.0002, Py 0.0001)]"
    by (simp add: solved_calibration_run_def Adjustment_init_def AdjustmentResults_init_def)
  from results_string_cal_coeff [OF h, of mask_format] h show ?thesis
    unfolding c by (simp add: mask_format_def)
qed

section \<open>Monotonicity of the critical value\<close>

lemma z_spec_alt: "z_spec t = t - z_num t / z_den t"
  by (simp add: z_spec_def z_num_def z_den_def)

lemma z_den_pos: "0 \<le> t \<Longrightarrow> 0 < z_den t"
  unfolding z_den_def by (rule z_denominator_pos)

lemma z_num_pos: "0 \<le> t \<Longrightarrow> 0 < z_num t"
  unfolding z_num_def by (intro add_pos_nonneg) simp_all





lemma z_spec_less_t:
  assumes "0 \<le> t"
  shows "z_spec t < t"
  using z_num_pos [OF assms] z_den_pos [OF assms] by (simp add: z_spec_alt)

















lemma statistics_input_simps [simp]:
  "alpha (adjustmentoptions (statistics_input a d)) = a"
  "dof (statistics_input a d) = d"
  "nrows (VtPV (statistics_input a d)) = 1"
  "ncols (VtPV (statistics_input a d)) = 1"
  by (simp_all add: statistics_input_def of_rows_def)









end
